theory Spec2Isabelle
  imports Complex_Main
begin

section \<open>Data model of the Deep Dive workspace\<close>

text \<open>
  The workspace exists in two source files: the single-file page
  \<^verbatim>\<open>pages/DeepDive.tsx\<close> and the split page \<^verbatim>\<open>pages/Deepdive/index.tsx\<close>
  (with its \<^verbatim>\<open>Sources\<close>, \<^verbatim>\<open>Chat\<close> and \<^verbatim>\<open>Studio\<close> children). Both keep
  their state in \<^verbatim>\<open>useState\<close> cells of one component; the cells are the fields of the
  record \<open>workspace\<close> below, and every handler is a function from the state before to
  the state after. JavaScript numbers are modelled as reals, so rounding is not part
  of the model, and a division is only meaningful where the divisor is not zero.
\<close>

record paper =
  paper_id :: string
  title :: string
  authors :: "string list"
  conference :: string
  year :: int
  abstract :: string
  paper_keywords :: "string list"
  citations :: int
  organization :: string

record chat_message =
  message :: string
  response :: string

text \<open>The two fields of \<^verbatim>\<open>getBoundingClientRect()\<close> that the handlers read.\<close>

record rect =
  rect_left :: real
  rect_width :: real

text \<open>
  The values of one render that the handlers created in that render close over.
  The document listeners of \<^verbatim>\<open>DeepDive.tsx\<close> are installed by an effect and keep
  the handlers of the render in which the effect ran.
\<close>

record render =
  r_isDragging :: bool
  r_currentTime :: real
  r_duration :: real

text \<open>
  \<open>selectedPapers_ref\<close> is the identity of the array held in \<^verbatim>\<open>selectedPapers\<close>:
  React compares effect dependencies with \<^verbatim>\<open>Object.is\<close>, that is by reference.
  \<open>requests\<close> lists the bodies of the chat requests sent so far; \<open>audioRef\<close> is
  \<open>None\<close> while \<^verbatim>\<open>audioRef.current\<close> is null and otherwise holds the element's
  \<^verbatim>\<open>currentTime\<close>; \<open>media_writes\<close> lists the values assigned to it, oldest first.
\<close>

record workspace =
  papers :: "paper list"
  selectedPapers :: "string list"
  selectedPapers_ref :: nat
  messages :: "chat_message list"
  inputMessage :: string
  requests :: "string list"
  currentTime :: real
  duration :: real
  isDragging :: bool
  progressRef :: "rect option"
  audioRef :: "real option"
  media_writes :: "real list"
  listeners :: render

section \<open>Selection handlers\<close>

text \<open>
  Every call of \<^verbatim>\<open>setSelectedPapers\<close> in the source passes an array that was just
  built (\<^verbatim>\<open>[]\<close>, \<^verbatim>\<open>papers.map(...)\<close>, \<^verbatim>\<open>prev.filter(...)\<close>, \<^verbatim>\<open>[...prev, paperId]\<close>),
  so the cell holds a new reference after each call.
\<close>

definition setSelectedPapers :: "string list \<Rightarrow> workspace \<Rightarrow> workspace" where
  "setSelectedPapers v s =
     s\<lparr>selectedPapers := v, selectedPapers_ref := Suc (selectedPapers_ref s)\<rparr>"

definition handleSelectAll :: "workspace \<Rightarrow> workspace" where
  "handleSelectAll s =
     (if length (selectedPapers s) = length (papers s)
      then setSelectedPapers [] s
      else setSelectedPapers (map paper_id (papers s)) s)"

text \<open>The updater that \<^verbatim>\<open>handlePaperSelect\<close> passes to \<^verbatim>\<open>setSelectedPapers\<close>.\<close>

definition togglePaper :: "string \<Rightarrow> string list \<Rightarrow> string list" where
  "togglePaper paperId prev =
     (if paperId \<in> set prev
      then filter (\<lambda>i. i \<noteq> paperId) prev
      else prev @ [paperId])"

definition handlePaperSelect :: "string \<Rightarrow> workspace \<Rightarrow> workspace" where
  "handlePaperSelect paperId s =
     setSelectedPapers (togglePaper paperId (selectedPapers s)) s"

text \<open>Only in \<^verbatim>\<open>DeepDive.tsx\<close>.\<close>

definition handleDeselectAll :: "workspace \<Rightarrow> workspace" where
  "handleDeselectAll s = setSelectedPapers [] s"

text \<open>Only in \<^verbatim>\<open>Deepdive/index.tsx\<close>.\<close>

definition handleDeleteSelected :: "workspace \<Rightarrow> workspace" where
  "handleDeleteSelected s =
     (if length (selectedPapers s) = 0 then s
      else setSelectedPapers []
             (s\<lparr>papers := filter (\<lambda>p. paper_id p \<notin> set (selectedPapers s)) (papers s)\<rparr>))"

text \<open>The invariant of the selection set: every selected id is the id of a loaded paper.\<close>

definition sel_valid :: "workspace \<Rightarrow> bool" where
  "sel_valid s = (set (selectedPapers s) \<subseteq> set (map paper_id (papers s)))"

section \<open>Chat handlers\<close>

text \<open>
  \<^verbatim>\<open>String.prototype.trim\<close> removes white space and line terminators from both ends.
  A \<open>char\<close> is one byte, so the white space modelled is the part of JavaScript's set
  below U+0100: tab, line feed, vertical tab, form feed, carriage return, space and
  the no-break space.
\<close>

definition isWhiteSpace :: "char \<Rightarrow> bool" where
  "isWhiteSpace c =
     (c \<in> set [CHR 0x09, CHR 0x0A, CHR 0x0B, CHR 0x0C, CHR 0x0D, CHR 0x20, CHR 0xA0])"

definition trim :: "string \<Rightarrow> string" where
  "trim t = rev (dropWhile isWhiteSpace (rev (dropWhile isWhiteSpace t)))"

text \<open>
  The calls that the synchronous part of \<^verbatim>\<open>handleSendMessage\<close> makes, in program
  order: the two state setters, then \<^verbatim>\<open>fetch\<close> with the message in its body.
\<close>

datatype action =
  AppendMessage chat_message
  | SetInputMessage string
  | Fetch string

definition handleSendMessage_calls :: "string \<Rightarrow> action list" where
  "handleSendMessage_calls inputMessage' =
     (if trim inputMessage' = [] then []
      else [AppendMessage \<lparr>message = inputMessage', response = []\<rparr>,
            SetInputMessage [],
            Fetch inputMessage'])"

fun perform :: "action \<Rightarrow> workspace \<Rightarrow> workspace" where
  "perform (AppendMessage m) s = s\<lparr>messages := messages s @ [m]\<rparr>"
| "perform (SetInputMessage v) s = s\<lparr>inputMessage := v\<rparr>"
| "perform (Fetch body) s = s\<lparr>requests := requests s @ [body]\<rparr>"

definition handleSendMessage :: "workspace \<Rightarrow> workspace" where
  "handleSendMessage s = fold perform (handleSendMessage_calls (inputMessage s)) s"

text \<open>
  How a request ends: the response is ok and its JSON carries the string
  \<^verbatim>\<open>response\<close>; the status is not ok and the handler throws; \<^verbatim>\<open>fetch\<close> itself
  rejects; or the body of an ok response is not JSON and \<^verbatim>\<open>response.json()\<close>
  rejects. The three failures reach the same \<^verbatim>\<open>catch\<close> block.
\<close>

datatype outcome = Ok string | NotOk | Rejected | BadJson

definition fallback :: string where
  "fallback = ''Sorry, there was an error processing your message.''"

text \<open>
  The updater \<^verbatim>\<open>prev.map((msg, idx) => idx === prev.length - 1 ? turn : msg)\<close>.
  The index comparison is made on integers, as \<^verbatim>\<open>prev.length - 1\<close> is \<open>-1\<close> for the
  empty transcript.
\<close>

definition replaceLast :: "chat_message \<Rightarrow> chat_message list \<Rightarrow> chat_message list" where
  "replaceLast turn prev =
     map (\<lambda>(idx, msg). if int idx = int (length prev) - 1 then turn else msg)
         (enumerate 0 prev)"

text \<open>
  The continuation of \<^verbatim>\<open>handleSendMessage\<close> after the \<^verbatim>\<open>await\<close>. Its first argument
  is the \<^verbatim>\<open>inputMessage\<close> the call closed over, that is the text it sent.
\<close>

definition settle :: "string \<Rightarrow> outcome \<Rightarrow> workspace \<Rightarrow> workspace" where
  "settle inputMessage' out s =
     (case out of
        Ok r \<Rightarrow>
          s\<lparr>messages := replaceLast \<lparr>message = inputMessage', response = r\<rparr> (messages s)\<rparr>
      | NotOk \<Rightarrow>
          s\<lparr>messages := replaceLast \<lparr>message = inputMessage', response = fallback\<rparr> (messages s)\<rparr>
      | Rejected \<Rightarrow>
          s\<lparr>messages := replaceLast \<lparr>message = inputMessage', response = fallback\<rparr> (messages s)\<rparr>
      | BadJson \<Rightarrow>
          s\<lparr>messages := replaceLast \<lparr>message = inputMessage', response = fallback\<rparr> (messages s)\<rparr>)"

section \<open>Playback handlers\<close>

text \<open>
  \<^verbatim>\<open>handleProgressClick\<close> and \<^verbatim>\<open>handleDragStart\<close> are passed as props on every
  render, so they read the current state. \<open>clientX\<close> is the event's \<^verbatim>\<open>clientX\<close>.
\<close>

definition handleProgressClick :: "real \<Rightarrow> workspace \<Rightarrow> workspace" where
  "handleProgressClick clientX s =
     (case progressRef s of
        None \<Rightarrow> s
      | Some r \<Rightarrow>
          if isDragging s then s
          else
            let x = clientX - rect_left r;
                percentage = x / rect_width r;
                newTime = percentage * duration s;
                s' = s\<lparr>currentTime := newTime\<rparr>
            in (case audioRef s' of
                  None \<Rightarrow> s'
                | Some _ \<Rightarrow> s'\<lparr>audioRef := Some newTime,
                                media_writes := media_writes s' @ [newTime]\<rparr>))"

definition handleDragStart :: "workspace \<Rightarrow> workspace" where
  "handleDragStart s = s\<lparr>isDragging := True\<rparr>"

text \<open>
  \<^verbatim>\<open>handleDrag\<close> and \<^verbatim>\<open>handleDragEnd\<close> exist in \<^verbatim>\<open>DeepDive.tsx\<close> only, and are
  called only by the document listeners. They read \<^verbatim>\<open>isDragging\<close>, \<^verbatim>\<open>currentTime\<close>
  and \<^verbatim>\<open>duration\<close> from the render \<open>c\<close> they were created in; the two refs are read
  when the handler runs.
\<close>

definition handleDrag :: "render \<Rightarrow> real \<Rightarrow> workspace \<Rightarrow> workspace" where
  "handleDrag c clientX s =
     (if r_isDragging c then
        (case progressRef s of
           None \<Rightarrow> s
         | Some r \<Rightarrow>
             let x = max 0 (min (clientX - rect_left r) (rect_width r));
                 percentage = x / rect_width r;
                 newTime = percentage * r_duration c
             in s\<lparr>currentTime := newTime\<rparr>)
      else s)"

definition handleDragEnd :: "render \<Rightarrow> workspace \<Rightarrow> workspace" where
  "handleDragEnd c s =
     (if r_isDragging c then
        (case audioRef s of
           None \<Rightarrow> s
         | Some _ \<Rightarrow>
             let percentage = r_currentTime c / r_duration c;
                 v = percentage * r_duration c
             in s\<lparr>audioRef := Some v, media_writes := media_writes s @ [v],
                  isDragging := False\<rparr>)
      else s)"

text \<open>
  The listeners that the effect with dependency list \<^verbatim>\<open>[isDragging]\<close> puts on the
  document. They are closures of the render in which the effect last ran, which the
  state keeps in \<open>listeners\<close>.
\<close>

definition handleMouseUp :: "workspace \<Rightarrow> workspace" where
  "handleMouseUp s =
     (let c = listeners s in if r_isDragging c then handleDragEnd c s else s)"

definition handleMouseMove :: "real \<Rightarrow> workspace \<Rightarrow> workspace" where
  "handleMouseMove clientX s =
     (let c = listeners s in if r_isDragging c then handleDrag c clientX s else s)"

section \<open>The two pages as transition systems\<close>

datatype event =
  SelectAll
  | PaperSelect string
  | DeselectAll
  | DeleteSelected
  | SendMessage
  | Settled string outcome
  | ProgressClick real
  | DragStart
  | MouseMove real
  | MouseUp

text \<open>
  \<^verbatim>\<open>DeepDive.tsx\<close>. Its delete icon calls \<^verbatim>\<open>handleDeselectAll\<close>; nothing in the page
  raises \<open>DeleteSelected\<close>.
\<close>

fun DeepDive_handle :: "event \<Rightarrow> workspace \<Rightarrow> workspace" where
  "DeepDive_handle SelectAll s = handleSelectAll s"
| "DeepDive_handle (PaperSelect paperId) s = handlePaperSelect paperId s"
| "DeepDive_handle DeselectAll s = handleDeselectAll s"
| "DeepDive_handle DeleteSelected s = s"
| "DeepDive_handle SendMessage s = handleSendMessage s"
| "DeepDive_handle (Settled sent out) s = settle sent out s"
| "DeepDive_handle (ProgressClick clientX) s = handleProgressClick clientX s"
| "DeepDive_handle DragStart s = handleDragStart s"
| "DeepDive_handle (MouseMove clientX) s = handleMouseMove clientX s"
| "DeepDive_handle MouseUp s = handleMouseUp s"

text \<open>
  The two effects of \<^verbatim>\<open>DeepDive.tsx\<close> that depend on state, run after the render
  that follows a handler; \<open>before\<close> is the state of the previous render. The effect on
  \<^verbatim>\<open>[selectedPapers]\<close> empties the transcript when the array is a new one; the effect
  on \<^verbatim>\<open>[isDragging]\<close> replaces the document listeners by those of the new render
  when the flag has changed.
\<close>

definition effects :: "workspace \<Rightarrow> workspace \<Rightarrow> workspace" where
  "effects before s =
     (let s1 = (if selectedPapers_ref s \<noteq> selectedPapers_ref before
                then s\<lparr>messages := []\<rparr> else s)
      in if isDragging s1 \<noteq> isDragging before
         then s1\<lparr>listeners := \<lparr>r_isDragging = isDragging s1,
                                r_currentTime = currentTime s1,
                                r_duration = duration s1\<rparr>\<rparr>
         else s1)"

definition DeepDive_step :: "event \<Rightarrow> workspace \<Rightarrow> workspace" where
  "DeepDive_step ev s = effects s (DeepDive_handle ev s)"

text \<open>
  \<^verbatim>\<open>Deepdive/index.tsx\<close>. The page has one effect, the fetch of the papers on mount;
  it has no effect on \<^verbatim>\<open>[selectedPapers]\<close>, no \<^verbatim>\<open>handleDeselectAll\<close>, no
  \<^verbatim>\<open>handleDrag\<close> or \<^verbatim>\<open>handleDragEnd\<close> and no document listeners, so a step is
  the handler alone.
\<close>

fun index_step :: "event \<Rightarrow> workspace \<Rightarrow> workspace" where
  "index_step SelectAll s = handleSelectAll s"
| "index_step (PaperSelect paperId) s = handlePaperSelect paperId s"
| "index_step DeselectAll s = s"
| "index_step DeleteSelected s = handleDeleteSelected s"
| "index_step SendMessage s = handleSendMessage s"
| "index_step (Settled sent out) s = settle sent out s"
| "index_step (ProgressClick clientX) s = handleProgressClick clientX s"
| "index_step DragStart s = handleDragStart s"
| "index_step (MouseMove clientX) s = s"
| "index_step MouseUp s = s"

text \<open>
  The state after mount: the \<^verbatim>\<open>useState\<close> defaults, the audio element at position 0
  and idle document listeners. \<open>p\<close> is \<^verbatim>\<open>progressRef.current\<close>: the bounding box of
  the track in \<^verbatim>\<open>DeepDive.tsx\<close>, and null in \<^verbatim>\<open>Deepdive/index.tsx\<close>, where the ref
  is passed to no element.
\<close>

definition mounted :: "rect option \<Rightarrow> workspace" where
  "mounted p =
     \<lparr>papers = [], selectedPapers = [], selectedPapers_ref = 0, messages = [],
      inputMessage = [], requests = [], currentTime = 0, duration = 613,
      isDragging = False, progressRef = p, audioRef = Some 0, media_writes = [],
      listeners = \<lparr>r_isDragging = False, r_currentTime = 0, r_duration = 613\<rparr>\<rparr>"

section \<open>Example states\<close>

definition paper_p1 :: paper where
  "paper_p1 = \<lparr>paper_id = ''p1'', title = ''First'', authors = [], conference = [],
     year = 2024, abstract = [], paper_keywords = [], citations = 0, organization = []\<rparr>"

definition paper_p2 :: paper where
  "paper_p2 = \<lparr>paper_id = ''p2'', title = ''Second'', authors = [], conference = [],
     year = 2024, abstract = [], paper_keywords = [], citations = 0, organization = []\<rparr>"

definition track :: rect where
  "track = \<lparr>rect_left = 0, rect_width = 100\<rparr>"

text \<open>Two papers loaded, nothing selected yet.\<close>

definition two_papers :: workspace where
  "two_papers = (mounted (Some track))\<lparr>papers := [paper_p1, paper_p2]\<rparr>"

text \<open>
  \<^verbatim>\<open>Deepdive/index.tsx\<close> with one paper loaded and selected and one settled turn
  in the transcript.
\<close>

definition chatting :: workspace where
  "chatting = (mounted None)\<lparr>papers := [paper_p1], selectedPapers := [''p1''],
     selectedPapers_ref := 1,
     messages := [\<lparr>message = ''hello'', response = ''hi''\<rparr>]\<rparr>"

text \<open>A transcript of two turns, the second one waiting for its response.\<close>

definition waiting :: workspace where
  "waiting = (mounted (Some track))\<lparr>
     messages := [\<lparr>message = ''first'', response = ''one''\<rparr>,
                  \<lparr>message = ''hello'', response = []\<rparr>]\<rparr>"

text \<open>The player with a duration of 600 seconds, at position 0.\<close>

definition player600 :: workspace where
  "player600 = (mounted (Some track))\<lparr>duration := 600,
     listeners := \<lparr>r_isDragging = False, r_currentTime = 0, r_duration = 600\<rparr>\<rparr>"

text \<open>The same player at the end of the stream, where the dot overhangs the track.\<close>

definition at_end :: workspace where
  "at_end = player600\<lparr>currentTime := 600, audioRef := Some 600\<rparr>"

text \<open>A drag in progress while \<^verbatim>\<open>audioRef.current\<close> is null.\<close>

definition dragging_unmounted :: workspace where
  "dragging_unmounted = player600\<lparr>isDragging := True, audioRef := None,
     listeners := \<lparr>r_isDragging = True, r_currentTime = 0, r_duration = 600\<rparr>\<rparr>"

text \<open>The input buffer holding a message, and holding blanks only.\<close>

definition typed_hello :: workspace where
  "typed_hello = (mounted (Some track))\<lparr>inputMessage := ''hello''\<rparr>"

definition typed_blank :: workspace where
  "typed_blank = waiting\<lparr>inputMessage := ''   ''\<rparr>"

section \<open>Chat: settling a request\<close>

lemma replaceLast_aux:
  "xs \<noteq> [] \<Longrightarrow> L = int n + int (length xs) - 1 \<Longrightarrow>
   map (\<lambda>(idx, msg). if int idx = L then turn else msg) (enumerate n xs) = butlast xs @ [turn]"
proof (induction xs arbitrary: n)
  case Nil
  then show ?case by simp
next
  case (Cons x xs)
  show ?case
  proof (cases "xs = []")
    case True
    with Cons.prems show ?thesis by simp
  next
    case False
    have "L = int (Suc n) + int (length xs) - 1" using Cons.prems by simp
    from Cons.IH [OF False this] False Cons.prems show ?thesis by simp
  qed
qed

lemma replaceLast_Nil: "replaceLast turn [] = []"
  by (simp add: replaceLast_def)

lemma replaceLast_butlast: "prev \<noteq> [] \<Longrightarrow> replaceLast turn prev = butlast prev @ [turn]"
  using replaceLast_aux [of prev _ 0 turn] by (simp add: replaceLast_def)

lemma messages_settle:
  "messages (settle sent out s) =
     replaceLast \<lparr>message = sent,
                  response = (case out of Ok r \<Rightarrow> r | NotOk \<Rightarrow> fallback
                              | Rejected \<Rightarrow> fallback | BadJson \<Rightarrow> fallback)\<rparr>
       (messages s)"
  by (cases out) (simp_all add: settle_def)

lemma settle_keeps_deps:
  "selectedPapers_ref (settle sent out s) = selectedPapers_ref s"
  "isDragging (settle sent out s) = isDragging s"
  by (cases out; simp add: settle_def)+

lemma messages_effects:
  "selectedPapers_ref s' = selectedPapers_ref s \<Longrightarrow> messages (effects s s') = messages s'"
  by (simp add: effects_def Let_def)

lemma messages_DeepDive_Settled:
  "messages (DeepDive_step (Settled sent out) s) = messages (settle sent out s)"
  by (simp add: DeepDive_step_def messages_effects settle_keeps_deps)

text \<open>
  Claim C4. When a request settles on a transcript that is not empty, the turn at the
  last position is the one that changes: its response becomes the server's text on
  success and the fixed fallback sentence on either failure (its message becomes the
  text that this request sent). The transcript keeps its length and every turn before
  the last is untouched. This holds for the continuation itself and for a step of
  either page.
\<close>

theorem settle_updates_last_turn:
  assumes "messages s \<noteq> []"
  shows "messages (settle sent (Ok r) s)
           = butlast (messages s) @ [\<lparr>message = sent, response = r\<rparr>]
       \<and> messages (settle sent NotOk s)
           = butlast (messages s) @ [\<lparr>message = sent, response = fallback\<rparr>]
       \<and> messages (settle sent Rejected s)
           = butlast (messages s) @ [\<lparr>message = sent, response = fallback\<rparr>]
       \<and> response (last (messages (settle sent (Ok r) s))) = r
       \<and> response (last (messages (settle sent NotOk s)))
           = ''Sorry, there was an error processing your message.''
       \<and> response (last (messages (settle sent Rejected s)))
           = ''Sorry, there was an error processing your message.''
       \<and> response (last (messages (settle sent BadJson s)))
           = ''Sorry, there was an error processing your message.''
       \<and> (\<forall>out. length (messages (settle sent out s)) = length (messages s)
              \<and> (\<forall>i. Suc i < length (messages s)
                     \<longrightarrow> messages (settle sent out s) ! i = messages s ! i)
              \<and> messages (DeepDive_step (Settled sent out) s) = messages (settle sent out s)
              \<and> messages (index_step (Settled sent out) s) = messages (settle sent out s))"
proof -
  have nth: "(butlast xs @ [t]) ! i = xs ! i" if "Suc i < length xs"
    for xs :: "chat_message list" and t i
    using that by (simp add: nth_append nth_butlast)
  show ?thesis
    using assms
    by (simp add: messages_settle replaceLast_butlast messages_DeepDive_Settled nth
        fallback_def)
qed

theorem settle_updates_last_turn_witness:
  "messages waiting \<noteq> []
   \<and> messages (settle ''hello'' (Ok ''hi there'') waiting)
       = [\<lparr>message = ''first'', response = ''one''\<rparr>,
          \<lparr>message = ''hello'', response = ''hi there''\<rparr>]
   \<and> messages (settle ''hello'' Rejected waiting)
       = [\<lparr>message = ''first'', response = ''one''\<rparr>,
          \<lparr>message = ''hello'',
           response = ''Sorry, there was an error processing your message.''\<rparr>]"
proof -
  have ne: "messages waiting \<noteq> []"
    by (simp add: waiting_def mounted_def)
  show ?thesis
    using ne settle_updates_last_turn [OF ne, of "''hello''" "''hi there''"]
    by (simp add: waiting_def mounted_def fallback_def)
qed

text \<open>
  Claim C9. A request that settles while the transcript is empty leaves it empty,
  whatever the outcome: mapping over the empty list creates no turn. In
  \<^verbatim>\<open>DeepDive.tsx\<close> this is what happens to a request that was in flight when a
  selection change cleared the transcript.
\<close>

theorem settle_on_empty_transcript:
  assumes "messages s = []"
  shows "messages (settle sent out s) = []
       \<and> messages (DeepDive_step (Settled sent out) s) = []
       \<and> messages (index_step (Settled sent out) s) = []
       \<and> messages (DeepDive_step (Settled sent out)
                     (DeepDive_step (PaperSelect paperId) s')) = []"
proof -
  have "messages (DeepDive_step (PaperSelect paperId) s') = []"
    by (simp add: DeepDive_step_def effects_def Let_def handlePaperSelect_def
        setSelectedPapers_def)
  then show ?thesis
    using assms by (simp add: messages_settle replaceLast_Nil messages_DeepDive_Settled)
qed

theorem settle_on_empty_transcript_witness:
  "messages (mounted (Some track)) = []
   \<and> messages (settle ''hello'' (Ok ''hi'') (mounted (Some track))) = []
   \<and> messages (DeepDive_step (Settled ''hello'' NotOk) (mounted (Some track))) = []"
proof -
  have e: "messages (mounted (Some track)) = []"
    by (simp add: mounted_def)
  show ?thesis
    using e settle_on_empty_transcript [OF e, of "''hello''"] by simp
qed

section \<open>Chat: submitting a message\<close>

lemma trim_Nil_iff: "trim t = [] \<longleftrightarrow> (\<forall>c \<in> set t. isWhiteSpace c)"
proof -
  have "(\<forall>x \<in> set (dropWhile isWhiteSpace t). isWhiteSpace x)
          \<longleftrightarrow> dropWhile isWhiteSpace t = []"
  proof (cases "dropWhile isWhiteSpace t")
    case Nil
    show ?thesis unfolding Nil by simp
  next
    case (Cons y ys)
    then have "\<not> isWhiteSpace (hd (dropWhile isWhiteSpace t))"
      using hd_dropWhile [of isWhiteSpace t] by simp
    with Cons show ?thesis by auto
  qed
  then show ?thesis
    by (simp add: trim_def dropWhile_eq_Nil_conv)
qed

text \<open>
  Claim C5. When the input buffer trims to the empty string, \<^verbatim>\<open>handleSendMessage\<close>
  makes no call and leaves the state as it is. Otherwise it makes three calls in this
  order: it appends one turn carrying the text and an empty response, it sets the
  input buffer to the empty string, and it sends one request carrying the text; the
  state after shows exactly these changes. A step of either page does the same to
  the transcript, the buffer and the requests sent.
\<close>

theorem handleSendMessage_submit:
  "(trim (inputMessage s) = [] \<longrightarrow>
      handleSendMessage_calls (inputMessage s) = [] \<and> handleSendMessage s = s)
   \<and> (trim (inputMessage s) \<noteq> [] \<longrightarrow>
      handleSendMessage_calls (inputMessage s)
        = [AppendMessage \<lparr>message = inputMessage s, response = []\<rparr>,
           SetInputMessage [], Fetch (inputMessage s)]
      \<and> handleSendMessage s
        = s\<lparr>messages := messages s @ [\<lparr>message = inputMessage s, response = []\<rparr>],
             inputMessage := [],
             requests := requests s @ [inputMessage s]\<rparr>)
   \<and> index_step SendMessage s = handleSendMessage s
   \<and> messages (DeepDive_step SendMessage s) = messages (handleSendMessage s)
   \<and> requests (DeepDive_step SendMessage s) = requests (handleSendMessage s)
   \<and> inputMessage (DeepDive_step SendMessage s) = inputMessage (handleSendMessage s)"
  by (simp add: handleSendMessage_def handleSendMessage_calls_def DeepDive_step_def
      effects_def Let_def)

theorem handleSendMessage_submit_witness:
  "trim (inputMessage typed_hello) \<noteq> []
   \<and> messages (handleSendMessage typed_hello) = [\<lparr>message = ''hello'', response = []\<rparr>]
   \<and> inputMessage (handleSendMessage typed_hello) = []
   \<and> requests (handleSendMessage typed_hello) = [''hello'']
   \<and> trim (inputMessage typed_blank) = []
   \<and> handleSendMessage typed_blank = typed_blank"
proof -
  have h: "trim (inputMessage typed_hello) \<noteq> []"
    by (simp add: typed_hello_def mounted_def trim_def isWhiteSpace_def)
  have b: "trim (inputMessage typed_blank) = []"
    by (simp add: typed_blank_def trim_def isWhiteSpace_def)
  have v: "messages typed_hello = []" "requests typed_hello = []"
    "inputMessage typed_hello = ''hello''"
    by (simp_all add: typed_hello_def mounted_def)
  show ?thesis
    using h b v handleSendMessage_submit [of typed_hello]
      handleSendMessage_submit [of typed_blank]
    by simp
qed

section \<open>Selection\<close>

lemma selectedPapers_effects: "selectedPapers (effects s s') = selectedPapers s'"
  by (simp add: effects_def Let_def)

lemma set_togglePaper:
  "set (togglePaper i sel) = (if i \<in> set sel then set sel - {i} else insert i (set sel))"
  by (auto simp: togglePaper_def)

lemma distinct_togglePaper: "distinct sel \<Longrightarrow> distinct (togglePaper i sel)"
  by (simp add: togglePaper_def)

lemma selectedPapers_handlePaperSelect:
  "selectedPapers (handlePaperSelect i s) = togglePaper i (selectedPapers s)"
  by (simp add: handlePaperSelect_def setSelectedPapers_def)

lemma selectedPapers_fold_toggle:
  "selectedPapers (fold handlePaperSelect ids s) = fold togglePaper ids (selectedPapers s)"
  by (induction ids arbitrary: s) (simp_all add: selectedPapers_handlePaperSelect)

lemma selectedPapers_fold_DeepDive:
  "selectedPapers (fold DeepDive_step (map PaperSelect ids) s)
     = fold togglePaper ids (selectedPapers s)"
  by (induction ids arbitrary: s)
     (simp_all add: DeepDive_step_def selectedPapers_effects selectedPapers_handlePaperSelect)

lemma selectedPapers_fold_index:
  "selectedPapers (fold index_step (map PaperSelect ids) s)
     = fold togglePaper ids (selectedPapers s)"
  by (induction ids arbitrary: s) (simp_all add: selectedPapers_handlePaperSelect)

text \<open>
  Toggling from the empty selection keeps the array free of duplicates and leaves in
  it the ids that occur an odd number of times. The induction runs from the end of
  the sequence, as the last toggle is the one applied last.
\<close>

lemma fold_togglePaper_odd:
  "set (fold togglePaper ids []) = {i. odd (count_list ids i)}
   \<and> distinct (fold togglePaper ids [])"
proof (induction ids rule: rev_induct)
  case Nil
  then show ?case by simp
next
  case (snoc x xs)
  then show ?case by (auto simp: set_togglePaper distinct_togglePaper)
qed

text \<open>
  Claim C7. Starting from the empty selection, after any finite sequence of
  \<^verbatim>\<open>handlePaperSelect\<close> calls the selected ids are exactly those toggled an odd
  number of times, whether the calls are taken alone or as steps of either page; and
  from any state, toggling one id twice in a row gives back the same set of selected
  ids.
\<close>

theorem toggles_select_odd:
  assumes "selectedPapers s = []"
  shows "set (selectedPapers (fold handlePaperSelect ids s)) = {i. odd (count_list ids i)}
       \<and> set (selectedPapers (fold DeepDive_step (map PaperSelect ids) s))
           = {i. odd (count_list ids i)}
       \<and> set (selectedPapers (fold index_step (map PaperSelect ids) s))
           = {i. odd (count_list ids i)}
       \<and> set (selectedPapers (handlePaperSelect i (handlePaperSelect i s')))
           = set (selectedPapers s')"
  using assms fold_togglePaper_odd [of ids]
  by (auto simp: selectedPapers_fold_toggle selectedPapers_fold_DeepDive
      selectedPapers_fold_index selectedPapers_handlePaperSelect set_togglePaper)

theorem toggles_select_odd_witness:
  "selectedPapers two_papers = []
   \<and> set (selectedPapers (fold handlePaperSelect [''p1'', ''p2'', ''p1''] two_papers))
       = {i. odd (count_list [''p1'', ''p2'', ''p1''] i)}
   \<and> selectedPapers (fold handlePaperSelect [''p1'', ''p2'', ''p1''] two_papers) = [''p2'']"
proof -
  have e: "selectedPapers two_papers = []"
    by (simp add: two_papers_def mounted_def)
  have v: "selectedPapers (fold handlePaperSelect [''p1'', ''p2'', ''p1''] two_papers)
             = [''p2'']"
    by (simp add: selectedPapers_handlePaperSelect togglePaper_def e)
  show ?thesis
    using e v toggles_select_odd [OF e, of "[''p1'', ''p2'', ''p1'']"] by simp
qed

text \<open>
  Claim C6. \<^verbatim>\<open>handleSelectAll\<close> empties the selection when it has as many entries as
  there are papers, and otherwise replaces it by the ids of all papers, in either
  page. With the two papers p1 and p2 loaded and both toggled on, it yields the empty
  selection.
\<close>

theorem handleSelectAll_toggles:
  "selectedPapers (handleSelectAll s) =
     (if length (selectedPapers s) = length (papers s) then []
      else map paper_id (papers s))
   \<and> selectedPapers (DeepDive_step SelectAll s) = selectedPapers (handleSelectAll s)
   \<and> index_step SelectAll s = handleSelectAll s
   \<and> (papers s = [a, b] \<and> paper_id a = ''p1'' \<and> paper_id b = ''p2''
        \<and> selectedPapers s = [] \<longrightarrow>
        selectedPapers (handlePaperSelect ''p2'' (handlePaperSelect ''p1'' s))
          = [''p1'', ''p2'']
      \<and> selectedPapers
          (handleSelectAll (handlePaperSelect ''p2'' (handlePaperSelect ''p1'' s))) = [])"
  by (simp add: handleSelectAll_def setSelectedPapers_def DeepDive_step_def
      selectedPapers_effects handlePaperSelect_def togglePaper_def)

theorem handleSelectAll_toggles_witness:
  "papers two_papers = [paper_p1, paper_p2]
   \<and> selectedPapers (handleSelectAll two_papers) = [''p1'', ''p2'']
   \<and> selectedPapers
       (handleSelectAll (handlePaperSelect ''p2'' (handlePaperSelect ''p1'' two_papers)))
       = []"
proof -
  have v: "papers two_papers = [paper_p1, paper_p2]" "selectedPapers two_papers = []"
    "paper_id paper_p1 = ''p1''" "paper_id paper_p2 = ''p2''"
    by (simp_all add: two_papers_def mounted_def paper_p1_def paper_p2_def)
  show ?thesis
    using v handleSelectAll_toggles [of two_papers paper_p1 paper_p2] by simp
qed

text \<open>
  Claim C8, as stated, fails: \<^verbatim>\<open>handlePaperSelect\<close> accepts any string and adds it
  when it is not selected, without looking at the paper list. On the freshly mounted
  page, where no paper is loaded, toggling the id \<open>ghost\<close> selects an id that no
  loaded paper has.
\<close>

theorem toggle_unknown_id_counterexample:
  "sel_valid (mounted (Some track))
   \<and> \<not> sel_valid (handlePaperSelect ''ghost'' (mounted (Some track)))"
  by (simp add: sel_valid_def mounted_def handlePaperSelect_def setSelectedPapers_def
      togglePaper_def)

text \<open>
  Claim C8, amended. The invariant is kept by \<^verbatim>\<open>handlePaperSelect\<close> when the id is
  the id of a loaded paper (the only ids that the checkboxes of the source list pass),
  and it holds after \<^verbatim>\<open>handleSelectAll\<close>, \<^verbatim>\<open>handleDeselectAll\<close> and
  \<^verbatim>\<open>handleDeleteSelected\<close>. When something is selected, \<^verbatim>\<open>handleDeleteSelected\<close>
  removes the papers with a selected id from the list and empties the selection in the
  same step.
\<close>

theorem selection_invariant_preserved:
  "(sel_valid s \<and> paperId \<in> set (map paper_id (papers s))
      \<longrightarrow> sel_valid (handlePaperSelect paperId s))
   \<and> sel_valid (handleSelectAll s)
   \<and> sel_valid (handleDeselectAll s)
   \<and> (sel_valid s \<longrightarrow> sel_valid (handleDeleteSelected s))
   \<and> (selectedPapers s \<noteq> [] \<longrightarrow>
        papers (handleDeleteSelected s)
          = filter (\<lambda>p. paper_id p \<notin> set (selectedPapers s)) (papers s)
      \<and> selectedPapers (handleDeleteSelected s) = [])"
  by (auto simp: sel_valid_def handlePaperSelect_def setSelectedPapers_def togglePaper_def
      handleSelectAll_def handleDeselectAll_def handleDeleteSelected_def)

theorem selection_invariant_preserved_witness:
  "sel_valid chatting
   \<and> ''p1'' \<in> set (map paper_id (papers chatting))
   \<and> sel_valid (handlePaperSelect ''p1'' chatting)
   \<and> sel_valid (handleDeleteSelected chatting)
   \<and> selectedPapers chatting \<noteq> []
   \<and> papers (handleDeleteSelected chatting) = []
   \<and> selectedPapers (handleDeleteSelected chatting) = []"
proof -
  have v: "papers chatting = [paper_p1]" "selectedPapers chatting = [''p1'']"
    "paper_id paper_p1 = ''p1''"
    by (simp_all add: chatting_def mounted_def paper_p1_def)
  have i: "sel_valid chatting"
    by (simp add: sel_valid_def v)
  show ?thesis
    using v i selection_invariant_preserved [of chatting "''p1''"] by simp
qed

section \<open>Selection changes and the transcript\<close>

text \<open>
  In \<^verbatim>\<open>DeepDive.tsx\<close> every selection handler stores a new array, so the effect
  commented \<^verbatim>\<open>Clear chat when selected papers change\<close> runs after each of them.
\<close>

lemma DeepDive_selection_clears_transcript:
  "messages (DeepDive_step SelectAll s) = []"
  "messages (DeepDive_step (PaperSelect i) s) = []"
  "messages (DeepDive_step DeselectAll s) = []"
  by (simp_all add: DeepDive_step_def effects_def Let_def handleSelectAll_def
      handlePaperSelect_def handleDeselectAll_def setSelectedPapers_def)

text \<open>\<^verbatim>\<open>Deepdive/index.tsx\<close> has no such effect, and its handlers do not touch the transcript.\<close>

lemma index_selection_keeps_transcript:
  "messages (index_step SelectAll s) = messages s"
  "messages (index_step (PaperSelect i) s) = messages s"
  "messages (index_step DeleteSelected s) = messages s"
  by (simp_all add: handleSelectAll_def handlePaperSelect_def handleDeleteSelected_def
      setSelectedPapers_def)

text \<open>
  Claim C1 says that the transcript is empty after every change of the selection. In
  \<^verbatim>\<open>Deepdive/index.tsx\<close>, with one paper loaded and selected and one turn in the
  transcript, deleting the selected paper empties the paper list and the selection
  and leaves the turn in the transcript; toggling the paper or selecting all leaves
  it there too.
\<close>

theorem index_delete_keeps_transcript:
  "messages (index_step DeleteSelected chatting)
     = [\<lparr>message = ''hello'', response = ''hi''\<rparr>]
   \<and> selectedPapers (index_step DeleteSelected chatting) = []
   \<and> papers (index_step DeleteSelected chatting) = []
   \<and> messages (index_step (PaperSelect ''p1'') chatting)
       = [\<lparr>message = ''hello'', response = ''hi''\<rparr>]
   \<and> messages (index_step SelectAll chatting)
       = [\<lparr>message = ''hello'', response = ''hi''\<rparr>]"
  by (simp add: chatting_def mounted_def handleDeleteSelected_def setSelectedPapers_def
      paper_p1_def handlePaperSelect_def handleSelectAll_def)

section \<open>Playback: a click on the track\<close>

lemma handleProgressClick_result:
  assumes "progressRef s = Some r" "\<not> isDragging s"
  shows "currentTime (handleProgressClick clientX s)
           = (clientX - rect_left r) / rect_width r * duration s"
    and "audioRef s = Some a \<Longrightarrow>
         audioRef (handleProgressClick clientX s)
           = Some ((clientX - rect_left r) / rect_width r * duration s)
         \<and> media_writes (handleProgressClick clientX s)
           = media_writes s @ [(clientX - rect_left r) / rect_width r * duration s]"
    and "audioRef s = None \<Longrightarrow>
         audioRef (handleProgressClick clientX s) = None
         \<and> media_writes (handleProgressClick clientX s) = media_writes s"
  using assms by (simp_all add: handleProgressClick_def Let_def split: option.splits)

lemma clamp_on_track:
  fixes x w :: real
  assumes "0 < w" "0 \<le> x" "x \<le> w"
  shows "max 0 (min 1 (x / w)) = x / w"
proof -
  have "0 \<le> x / w" "x / w \<le> 1" using assms by simp_all
  then show ?thesis by simp
qed

text \<open>
  For a pointer on the track the click computes the clamped fraction times the
  duration, as the fraction needs no clamping there; the two edges give 0 and the
  duration.
\<close>

lemma handleProgressClick_on_track:
  assumes "progressRef s = Some r" "\<not> isDragging s" "0 < rect_width r"
    "0 \<le> clientX - rect_left r" "clientX - rect_left r \<le> rect_width r"
  shows "currentTime (handleProgressClick clientX s)
           = max 0 (min 1 ((clientX - rect_left r) / rect_width r)) * duration s"
  using assms(3-5) handleProgressClick_result(1) [OF assms(1,2)]
  by (simp only: clamp_on_track)

lemma handleProgressClick_edges:
  assumes "progressRef s = Some r" "\<not> isDragging s" "0 < rect_width r"
  shows "currentTime (handleProgressClick (rect_left r) s) = 0"
    and "currentTime (handleProgressClick (rect_left r + rect_width r) s) = duration s"
  using assms by (simp_all add: handleProgressClick_result(1))

text \<open>
  Claim C3 says that a click yields the clamped fraction times the duration for every
  pointer offset. \<^verbatim>\<open>handleProgressClick\<close> has no clamp (\<^verbatim>\<open>handleDrag\<close> has one).
  The progress dot is a child of the track, 16 pixels wide and placed at
  \<^verbatim>\<open>left: (currentTime / duration) * 100%\<close>, so at the end of the stream it lies to
  the right of the track and a click on it reaches the track's handler. With a track
  of width 100 starting at 0 and a duration of 600, a click at offset 110 sets
  \<^verbatim>\<open>currentTime\<close> to 660 and assigns 660 to the media position, where the clamped
  fraction gives 600. The same holds for the whole gesture of a click, which the page
  sees as mousedown on the track, mouseup on the document and then the click.
\<close>

theorem handleProgressClick_not_clamped:
  "duration at_end = 600
   \<and> progressRef at_end = Some \<lparr>rect_left = 0, rect_width = 100\<rparr>
   \<and> \<not> isDragging at_end
   \<and> currentTime (handleProgressClick 110 at_end) = 660
   \<and> media_writes (handleProgressClick 110 at_end) = [660]
   \<and> audioRef (handleProgressClick 110 at_end) = Some 660
   \<and> currentTime (fold DeepDive_step [DragStart, MouseUp, ProgressClick 110] at_end) = 660
   \<and> media_writes (fold DeepDive_step [DragStart, MouseUp, ProgressClick 110] at_end)
       = [600, 660]
   \<and> max 0 (min 1 ((110 - 0) / 100)) * duration at_end = 600"
  by (simp add: at_end_def player600_def mounted_def track_def handleProgressClick_def
      Let_def DeepDive_step_def effects_def handleDragStart_def handleMouseUp_def
      handleDragEnd_def)

section \<open>Playback: dragging\<close>

lemma DragStart_step:
  "\<not> isDragging s \<Longrightarrow>
   DeepDive_step DragStart s =
     s\<lparr>isDragging := True,
       listeners := \<lparr>r_isDragging = True, r_currentTime = currentTime s,
                     r_duration = duration s\<rparr>\<rparr>"
  by (simp add: DeepDive_step_def effects_def Let_def handleDragStart_def)

lemma MouseMove_step:
  "DeepDive_step (MouseMove x) s = handleMouseMove x s"
  by (simp add: DeepDive_step_def effects_def Let_def handleMouseMove_def handleDrag_def
      split: option.splits)

text \<open>A pointer move assigns nothing to the media position and keeps the listeners.\<close>

lemma MouseMove_frame:
  "media_writes (DeepDive_step (MouseMove x) s) = media_writes s"
  "audioRef (DeepDive_step (MouseMove x) s) = audioRef s"
  "listeners (DeepDive_step (MouseMove x) s) = listeners s"
  "isDragging (DeepDive_step (MouseMove x) s) = isDragging s"
  "progressRef (DeepDive_step (MouseMove x) s) = progressRef s"
  by (simp_all add: MouseMove_step handleMouseMove_def handleDrag_def Let_def
      split: option.splits)

lemma MouseMoves_frame:
  "media_writes (fold DeepDive_step (map MouseMove xs) s) = media_writes s
   \<and> audioRef (fold DeepDive_step (map MouseMove xs) s) = audioRef s
   \<and> listeners (fold DeepDive_step (map MouseMove xs) s) = listeners s
   \<and> isDragging (fold DeepDive_step (map MouseMove xs) s) = isDragging s
   \<and> progressRef (fold DeepDive_step (map MouseMove xs) s) = progressRef s"
  by (induction xs arbitrary: s) (simp_all add: MouseMove_frame)

text \<open>While dragging, each pointer move sets the displayed time from the clamped offset.\<close>

lemma MouseMove_currentTime:
  "r_isDragging (listeners s) \<Longrightarrow> progressRef s = Some r \<Longrightarrow>
   currentTime (DeepDive_step (MouseMove x) s)
     = max 0 (min (x - rect_left r) (rect_width r)) / rect_width r
         * r_duration (listeners s)"
  by (simp add: MouseMove_step handleMouseMove_def handleDrag_def Let_def)

lemma MouseMoves_currentTime:
  "r_isDragging (listeners s) \<Longrightarrow> progressRef s = Some r \<Longrightarrow> xs \<noteq> [] \<Longrightarrow>
   currentTime (fold DeepDive_step (map MouseMove xs) s)
     = max 0 (min (last xs - rect_left r) (rect_width r)) / rect_width r
         * r_duration (listeners s)"
proof (induction xs rule: rev_induct)
  case Nil
  then show ?case by simp
next
  case (snoc x xs)
  let ?t = "fold DeepDive_step (map MouseMove xs) s"
  have "r_isDragging (listeners ?t)" "progressRef ?t = Some r" "listeners ?t = listeners s"
    using snoc.prems by (simp_all add: MouseMoves_frame)
  then show ?case
    using MouseMove_currentTime [of ?t r x] by simp
qed

text \<open>
  The release assigns to the media position the \<^verbatim>\<open>currentTime\<close> that the listener's
  render saw, and leaves the displayed time as it is.
\<close>

lemma MouseUp_writes:
  "isDragging s \<Longrightarrow> r_isDragging (listeners s) \<Longrightarrow> audioRef s = Some a \<Longrightarrow>
   r_duration (listeners s) \<noteq> 0 \<Longrightarrow>
   media_writes (DeepDive_step MouseUp s) = media_writes s @ [r_currentTime (listeners s)]
   \<and> audioRef (DeepDive_step MouseUp s) = Some (r_currentTime (listeners s))
   \<and> currentTime (DeepDive_step MouseUp s) = currentTime s
   \<and> \<not> isDragging (DeepDive_step MouseUp s)"
  by (simp add: DeepDive_step_def effects_def Let_def handleMouseUp_def handleDragEnd_def)

text \<open>
  A whole drag, from any state that is not dragging and has the media element: the
  media position is assigned once, at the release, and the value assigned is the
  \<^verbatim>\<open>currentTime\<close> of the moment the drag began, whatever the pointer moves were.
\<close>

lemma drag_commits_time_of_drag_start:
  assumes "\<not> isDragging s" "audioRef s = Some a" "duration s \<noteq> 0"
  shows "media_writes (fold DeepDive_step (DragStart # map MouseMove xs @ [MouseUp]) s)
           = media_writes s @ [currentTime s]"
proof -
  let ?d = "DeepDive_step DragStart s"
  let ?m = "fold DeepDive_step (map MouseMove xs) ?d"
  have d: "isDragging ?d"
    "listeners ?d = \<lparr>r_isDragging = True, r_currentTime = currentTime s,
                      r_duration = duration s\<rparr>"
    "audioRef ?d = Some a" "media_writes ?d = media_writes s"
    using assms by (simp_all add: DragStart_step)
  have m: "isDragging ?m" "listeners ?m = listeners ?d" "audioRef ?m = Some a"
    "media_writes ?m = media_writes s"
    using d by (simp_all add: MouseMoves_frame)
  have "media_writes (DeepDive_step MouseUp ?m)
          = media_writes ?m @ [r_currentTime (listeners ?m)]"
    using MouseUp_writes [of ?m a] m d assms by simp
  then show ?thesis
    using m d by simp
qed

text \<open>
  Had the release run the \<^verbatim>\<open>handleDragEnd\<close> of the current render, it would have
  assigned the displayed time.
\<close>

lemma handleDragEnd_current_render:
  assumes "isDragging s" "audioRef s = Some a" "duration s \<noteq> 0"
  shows "media_writes
           (handleDragEnd \<lparr>r_isDragging = isDragging s, r_currentTime = currentTime s,
                           r_duration = duration s\<rparr> s)
         = media_writes s @ [currentTime s]"
  using assms by (simp add: handleDragEnd_def Let_def)

text \<open>
  Claim C2 says that the release writes the final pointer move's clamped fraction
  times the duration. The document listeners are installed by an effect whose
  dependency list is \<^verbatim>\<open>[isDragging]\<close>, so during a drag they are the closures of the
  render in which \<^verbatim>\<open>isDragging\<close> became true, and the \<^verbatim>\<open>handleDragEnd\<close> they call
  reads that render's \<^verbatim>\<open>currentTime\<close>. With a duration of 600, the player at 0 and a
  track of width 100: after the drag start and a move to offset 50 the displayed time
  is 300 and nothing has been assigned to the media position; the release then
  assigns 0 to it, once, and the displayed time stays 300.
\<close>

theorem drag_end_writes_stale_time:
  "currentTime (fold DeepDive_step [DragStart, MouseMove 50] player600) = 300
   \<and> media_writes (fold DeepDive_step [DragStart, MouseMove 50] player600) = []
   \<and> currentTime (fold DeepDive_step [DragStart, MouseMove 50, MouseUp] player600) = 300
   \<and> media_writes (fold DeepDive_step [DragStart, MouseMove 50, MouseUp] player600) = [0]
   \<and> audioRef (fold DeepDive_step [DragStart, MouseMove 50, MouseUp] player600) = Some 0
   \<and> \<not> isDragging (fold DeepDive_step [DragStart, MouseMove 50, MouseUp] player600)"
  by (simp add: player600_def mounted_def track_def DeepDive_step_def effects_def Let_def
      handleDragStart_def handleMouseMove_def handleDrag_def handleMouseUp_def
      handleDragEnd_def)

text \<open>
  Claim C10. When the release comes while \<^verbatim>\<open>isDragging\<close> is true and
  \<^verbatim>\<open>audioRef.current\<close> is null, \<^verbatim>\<open>handleDragEnd\<close> changes nothing, whichever
  render it belongs to: nothing is assigned to the media position and
  \<^verbatim>\<open>isDragging\<close> stays true, for the handler and for the step of the page.
\<close>

theorem handleDragEnd_without_media:
  assumes "audioRef s = None" and "isDragging s"
  shows "handleDragEnd c s = s
       \<and> handleMouseUp s = s
       \<and> DeepDive_step MouseUp s = s
       \<and> media_writes (DeepDive_step MouseUp s) = media_writes s
       \<and> audioRef (DeepDive_step MouseUp s) = None
       \<and> isDragging (DeepDive_step MouseUp s)"
  using assms
  by (simp add: handleDragEnd_def handleMouseUp_def DeepDive_step_def effects_def Let_def)

theorem handleDragEnd_without_media_witness:
  "audioRef dragging_unmounted = None
   \<and> isDragging dragging_unmounted
   \<and> r_isDragging (listeners dragging_unmounted)
   \<and> DeepDive_step MouseUp dragging_unmounted = dragging_unmounted
   \<and> media_writes (DeepDive_step MouseUp dragging_unmounted) = []"
proof -
  have v: "audioRef dragging_unmounted = None" "isDragging dragging_unmounted"
    "r_isDragging (listeners dragging_unmounted)" "media_writes dragging_unmounted = []"
    by (simp_all add: dragging_unmounted_def player600_def mounted_def)
  show ?thesis
    using v handleDragEnd_without_media [OF v(1) v(2)] by simp
qed

end
